theory Spec2Isabelle
  imports Main "HOL-Library.Sublist" "HOL-Library.AList"
begin

section \<open>Strings\<close>

text \<open>
  A Python \<open>str\<close> is a sequence of Unicode code points, so a string is a list of
  code points here. \<open>u\<close> reads an ASCII literal; the few non-ASCII characters of the
  source's literals are written by their code points (U+26A0 U+FE0F for the warning
  sign, U+00B0 for the degree sign).

  \<open>keyword in text\<close> on two strings is the contiguous-substring test, which is
  \<^const>\<open>sublist\<close>; \<open>any(... for k in ks)\<close> is \<^const>\<open>list_ex\<close>.
\<close>

type_synonym ustr = "nat list"

definition u :: "string \<Rightarrow> ustr" where
  "u s = map of_char s"

text \<open>
  \<open>str.lower\<close> is a built-in of the language with the Unicode case tables behind it;
  the functions below take it as the parameter \<open>lower\<close>. \<open>ascii_lower\<close> is what
  it does on a string of ASCII code points, and is the instance used wherever a
  concrete input is evaluated.
\<close>

definition ascii_lower :: "ustr \<Rightarrow> ustr" where
  "ascii_lower s = map (\<lambda>c. if 65 \<le> c \<and> c \<le> 90 then c + 32 else c) s"

text \<open>
  \<open>str.strip()\<close> removes the leading and the trailing white space; the code points
  below are the ones for which \<open>str.isspace\<close> holds.
\<close>

definition isspace :: "nat \<Rightarrow> bool" where
  "isspace c \<longleftrightarrow>
     (9 \<le> c \<and> c \<le> 13) \<or> (28 \<le> c \<and> c \<le> 32) \<or> c = 0x85 \<or> c = 0xA0 \<or> c = 0x1680 \<or>
     (0x2000 \<le> c \<and> c \<le> 0x200A) \<or> c = 0x2028 \<or> c = 0x2029 \<or> c = 0x202F \<or>
     c = 0x205F \<or> c = 0x3000"

definition strip :: "ustr \<Rightarrow> ustr" where
  "strip s = rev (dropWhile isspace (rev (dropWhile isspace s)))"

section \<open>Errors\<close>

datatype py_error =
    KeyError | TypeError | AttributeError | IndexError | OSError | APIError

datatype http_error = HTTPException nat py_error

section \<open>The fallback table\<close>

definition mild_headache :: ustr where
  "mild_headache = u ''For mild headaches, try: Rest in a quiet, dark room; Stay hydrated; Apply a cold or warm compress to your head; Consider over-the-counter pain relievers like ibuprofen or acetaminophen. If headaches persist or worsen, consult a healthcare provider.''"

definition mild_cold :: ustr where
  "mild_cold = u ''For common cold symptoms: Get plenty of rest; Stay hydrated with water, warm tea, or clear broths; Use a humidifier or breathe steam from a hot shower; Gargle with warm salt water for sore throat. Most cold symptoms resolve within 7-10 days. Consult a doctor if symptoms worsen or persist beyond 10 days.''"

definition mild_fever :: ustr where
  "mild_fever = u ''For mild fever (under 102'' @ [0xB0] @ u ''F): Rest and stay hydrated; Use over-the-counter fever reducers like acetaminophen or ibuprofen; Dress lightly and use cool compresses; Monitor temperature regularly. Seek medical attention if fever exceeds 102'' @ [0xB0] @ u ''F, persists more than 3 days, or is accompanied by severe symptoms.''"

definition mild_default :: ustr where
  "mild_default = u ''Based on your symptoms, here are some general recommendations: Get adequate rest; Stay well-hydrated; Monitor your symptoms; Consider over-the-counter remedies if appropriate. However, if symptoms worsen, persist, or you have concerns, please consult with a healthcare professional for proper evaluation and treatment.''"

definition serious_chest :: ustr where
  "serious_chest = [0x26A0, 0xFE0F] @ u '' CHEST PAIN requires immediate medical attention. Please contact emergency services (911) or go to the nearest emergency room immediately. Do not delay seeking medical care for chest pain.''"

definition serious_breathing :: ustr where
  "serious_breathing = [0x26A0, 0xFE0F] @ u '' DIFFICULTY BREATHING is a serious symptom. Seek immediate medical attention by calling emergency services (911) or going to the nearest emergency room. This requires urgent evaluation by healthcare professionals.''"

definition serious_severe :: ustr where
  "serious_severe = [0x26A0, 0xFE0F] @ u '' Based on your symptoms, this appears to require immediate medical attention. Please contact emergency services (911) or go to the nearest emergency room right away. Do not delay seeking professional medical care.''"

definition serious_default :: ustr where
  "serious_default = [0x26A0, 0xFE0F] @ u '' Your symptoms suggest you should seek medical attention promptly. Please contact your healthcare provider, urgent care center, or emergency services if symptoms are severe. Professional medical evaluation is recommended.''"

text \<open>The nested dictionary, as association lists in the source's order.\<close>

definition FALLBACK_RESPONSES :: "(ustr \<times> (ustr \<times> ustr) list) list" where
  "FALLBACK_RESPONSES =
     [(u ''mild'',
         [(u ''headache'', mild_headache),
          (u ''cold'', mild_cold),
          (u ''fever'', mild_fever),
          (u ''default'', mild_default)]),
      (u ''serious'',
         [(u ''chest'', serious_chest),
          (u ''breathing'', serious_breathing),
          (u ''severe'', serious_severe),
          (u ''default'', serious_default)])]"

text \<open>\<open>d[k]\<close> on a dictionary raises \<open>KeyError\<close> when the key is missing.\<close>

definition getitem :: "('k \<times> 'v) list \<Rightarrow> 'k \<Rightarrow> py_error + 'v" where
  "getitem d k = (case map_of d k of None \<Rightarrow> Inl KeyError | Some v \<Rightarrow> Inr v)"

text \<open>\<open>return FALLBACK_RESPONSES[severity][key], severity\<close>\<close>

definition canned :: "ustr \<Rightarrow> ustr \<Rightarrow> py_error + ustr \<times> ustr" where
  "canned severity key =
     (case getitem FALLBACK_RESPONSES severity of
        Inl e \<Rightarrow> Inl e
      | Inr table \<Rightarrow>
          (case getitem table key of
             Inl e \<Rightarrow> Inl e
           | Inr text \<Rightarrow> Inr (text, severity)))"

section \<open>The fallback classifier\<close>

definition serious_keywords :: "ustr list" where
  "serious_keywords =
     [u ''chest pain'', u ''chest'', u ''breathing'', u ''breath'', u ''severe'',
      u ''emergency'', u ''unconscious'', u ''bleeding heavily'']"

definition mild_indicators :: "ustr list" where
  "mild_indicators = [u ''mild'', u ''slight'', u ''little'', u ''minor'']"

definition get_fallback_response :: "(ustr \<Rightarrow> ustr) \<Rightarrow> ustr \<Rightarrow> py_error + ustr \<times> ustr" where
  "get_fallback_response lower symptoms =
     (let symptoms_lower = lower symptoms in
      if list_ex (\<lambda>keyword. sublist keyword symptoms_lower) serious_keywords then
        (if sublist (u ''chest'') symptoms_lower then canned (u ''serious'') (u ''chest'')
         else if sublist (u ''breath'') symptoms_lower then canned (u ''serious'') (u ''breathing'')
         else canned (u ''serious'') (u ''severe''))
      else if sublist (u ''headache'') symptoms_lower \<or> sublist (u ''head'') symptoms_lower then
        canned (u ''mild'') (u ''headache'')
      else if sublist (u ''cold'') symptoms_lower \<or> sublist (u ''cough'') symptoms_lower
              \<or> sublist (u ''runny nose'') symptoms_lower then
        canned (u ''mild'') (u ''cold'')
      else if sublist (u ''fever'') symptoms_lower \<and> sublist (u ''mild'') symptoms_lower then
        canned (u ''mild'') (u ''fever'')
      else if list_ex (\<lambda>indicator. sublist indicator symptoms_lower) mild_indicators then
        canned (u ''mild'') (u ''default'')
      else canned (u ''serious'') (u ''default''))"

section \<open>The conversation log\<close>

text \<open>
  What \<open>json.load\<close> returns. Numbers are never inspected by this program.
  A dictionary keeps its insertion order.
\<close>

datatype json =
    JNull | JBool bool | JNum int | JStr ustr | JArr "json list" | JObj "(ustr \<times> json) list"

text \<open>
  The file at \<open>CONVERSATIONS_FILE\<close>: it does not exist, or it exists and opening or
  parsing it raises, or it holds a JSON document.
\<close>

datatype file_state = Absent | Unreadable | Stored json

definition default_document :: json where
  "default_document = JObj [(u ''conversations'', JArr [])]"

definition load_conversations :: "file_state \<Rightarrow> json" where
  "load_conversations file =
     (case file of
        Absent \<Rightarrow> default_document
      | Unreadable \<Rightarrow> default_document
      | Stored data \<Rightarrow> data)"

text \<open>The dictionary literal of \<open>save_conversation\<close>.\<close>

definition conversation :: "ustr \<Rightarrow> ustr \<Rightarrow> ustr \<Rightarrow> ustr \<Rightarrow> json" where
  "conversation user_input ai_response sev now =
     JObj [(u ''user'', JStr user_input),
           (u ''response'', JStr ai_response),
           (u ''severity'', JStr sev),
           (u ''timestamp'', JStr now)]"

text \<open>
  \<open>data["conversations"].append(conversation)\<close>: subscripting anything but a
  dictionary with a string raises \<open>TypeError\<close>, a missing key raises \<open>KeyError\<close>, and
  only a list has \<open>append\<close>. The list is changed in place, so the dictionary keeps
  its other entries and its order.
\<close>

definition append_conversation :: "json \<Rightarrow> json \<Rightarrow> py_error + json" where
  "append_conversation data entry =
     (case data of
        JObj items \<Rightarrow>
          (case getitem items (u ''conversations'') of
             Inl e \<Rightarrow> Inl e
           | Inr (JArr entries) \<Rightarrow>
               Inr (JObj (AList.update (u ''conversations'') (JArr (entries @ [entry])) items))
           | Inr _ \<Rightarrow> Inl AttributeError)
      | _ \<Rightarrow> Inl TypeError)"

text \<open>
  How the write goes: it succeeds; or \<open>os.makedirs\<close> or \<open>open(..., 'w')\<close> raises and
  the file is untouched; or \<open>open\<close> has truncated the file and \<open>json.dump\<close> raises
  before the document is complete, which leaves text that does not parse.
\<close>

datatype write_outcome = Written | OpenFails | DumpFails

text \<open>
  The body of the \<open>try\<close> of \<open>save_conversation\<close>: the exception it raises, if any,
  and the file afterwards.
\<close>

definition save_conversation_try ::
  "write_outcome \<Rightarrow> ustr \<Rightarrow> file_state \<Rightarrow> ustr \<Rightarrow> ustr \<Rightarrow> ustr \<Rightarrow> py_error option \<times> file_state" where
  "save_conversation_try disk now file user_input ai_response sev =
     (let data = load_conversations file in
      case append_conversation data (conversation user_input ai_response sev now) of
        Inl e \<Rightarrow> (Some e, file)
      | Inr data' \<Rightarrow>
          (case disk of
             Written \<Rightarrow> (None, Stored data')
           | OpenFails \<Rightarrow> (Some OSError, file)
           | DumpFails \<Rightarrow> (Some OSError, Unreadable)))"

text \<open>\<open>except Exception\<close> prints the error and returns normally.\<close>

definition save_conversation ::
  "write_outcome \<Rightarrow> ustr \<Rightarrow> file_state \<Rightarrow> ustr \<Rightarrow> ustr \<Rightarrow> ustr \<Rightarrow> file_state" where
  "save_conversation disk now file user_input ai_response sev =
     snd (save_conversation_try disk now file user_input ai_response sev)"

section \<open>The endpoints\<close>

record SymptomRequest =
  symptoms :: ustr

record DiagnosisResponse =
  advice :: ustr
  severity :: ustr
  timestamp :: ustr

text \<open>
  What one request finds around it: the model client (\<open>None\<close> when unconfigured),
  which answers a user message with an exception or with the message contents of
  the completion's choices (a content may be \<open>None\<close>); the two readings of
  \<open>datetime.now().isoformat()\<close>; and how the write of the log goes.
\<close>

type_synonym completion = "ustr option list"

record env =
  client :: "(ustr \<Rightarrow> py_error + completion) option"
  clock_save :: ustr
  clock_response :: ustr
  disk :: write_outcome

definition model_keywords :: "ustr list" where
  "model_keywords =
     [u ''doctor'', u ''emergency'', u ''hospital'', u ''serious'', u ''severe'',
      u ''immediate'', u ''urgent'', u ''medical attention'', u ''911'', u ''seek care'']"

definition disclaimer :: ustr where
  "disclaimer = [10, 10, 0x26A0, 0xFE0F] @ u '' Disclaimer: This advice is for informational purposes only and does not replace professional medical consultation. Please consult a qualified healthcare provider for proper diagnosis and treatment.''"

text \<open>\<open>response.choices[0].message.content.strip()\<close>\<close>

definition first_content :: "completion \<Rightarrow> py_error + ustr" where
  "first_content choices =
     (case choices of
        [] \<Rightarrow> Inl IndexError
      | None # _ \<Rightarrow> Inl AttributeError
      | Some content # _ \<Rightarrow> Inr (strip content))"

text \<open>The statements of the inner \<open>try\<close> up to the assignment of \<open>ai_response\<close>.\<close>

definition call_model :: "(ustr \<Rightarrow> py_error + completion) \<Rightarrow> ustr \<Rightarrow> py_error + ustr" where
  "call_model create symptoms' =
     (case create (u ''Symptoms: '' @ symptoms') of
        Inl e \<Rightarrow> Inl e
      | Inr response \<Rightarrow> first_content response)"

text \<open>The \<open>if client: ... else: ...\<close> block, which sets \<open>ai_response\<close> and \<open>severity\<close>.\<close>

definition answer :: "(ustr \<Rightarrow> ustr) \<Rightarrow> env \<Rightarrow> ustr \<Rightarrow> py_error + ustr \<times> ustr" where
  "answer lower e symptoms' =
     (case client e of
        Some create \<Rightarrow>
          (case call_model create symptoms' of
             Inr ai_response \<Rightarrow>
               Inr (ai_response,
                    if list_ex (\<lambda>keyword. sublist keyword (lower ai_response)) model_keywords
                    then u ''serious'' else u ''mild'')
           | Inl openai_error \<Rightarrow> get_fallback_response lower symptoms')
      | None \<Rightarrow> get_fallback_response lower symptoms')"

text \<open>
  \<open>POST /diagnose\<close>: the response, or the \<open>HTTPException\<close> of the outer \<open>except\<close>,
  and the file afterwards.
\<close>

definition diagnose_symptoms ::
  "(ustr \<Rightarrow> ustr) \<Rightarrow> env \<Rightarrow> file_state \<Rightarrow> SymptomRequest
     \<Rightarrow> (http_error + DiagnosisResponse) \<times> file_state" where
  "diagnose_symptoms lower e file request =
     (case answer lower e (symptoms request) of
        Inl err \<Rightarrow> (Inl (HTTPException 500 err), file)
      | Inr (text, sev) \<Rightarrow>
          (let ai_response = text @ disclaimer in
           (Inr \<lparr>advice = ai_response, severity = sev, timestamp = clock_response e\<rparr>,
            save_conversation (disk e) (clock_save e) file (symptoms request) ai_response sev)))"

text \<open>\<open>GET /history\<close>\<close>

definition get_conversation_history :: "file_state \<Rightarrow> (http_error + json) \<times> file_state" where
  "get_conversation_history file = (Inr (load_conversations file), file)"

section \<open>Facts about the fallback table and the classifier\<close>

lemma canned_mild_headache:
  "canned (u ''mild'') (u ''headache'') = Inr (mild_headache, u ''mild'')"
  by (simp add: canned_def getitem_def FALLBACK_RESPONSES_def u_def)

lemma canned_mild_cold:
  "canned (u ''mild'') (u ''cold'') = Inr (mild_cold, u ''mild'')"
  by (simp add: canned_def getitem_def FALLBACK_RESPONSES_def u_def)

lemma canned_mild_fever:
  "canned (u ''mild'') (u ''fever'') = Inr (mild_fever, u ''mild'')"
  by (simp add: canned_def getitem_def FALLBACK_RESPONSES_def u_def)

lemma canned_mild_default:
  "canned (u ''mild'') (u ''default'') = Inr (mild_default, u ''mild'')"
  by (simp add: canned_def getitem_def FALLBACK_RESPONSES_def u_def)

lemma canned_serious_chest:
  "canned (u ''serious'') (u ''chest'') = Inr (serious_chest, u ''serious'')"
  by (simp add: canned_def getitem_def FALLBACK_RESPONSES_def u_def)

lemma canned_serious_breathing:
  "canned (u ''serious'') (u ''breathing'') = Inr (serious_breathing, u ''serious'')"
  by (simp add: canned_def getitem_def FALLBACK_RESPONSES_def u_def)

lemma canned_serious_severe:
  "canned (u ''serious'') (u ''severe'') = Inr (serious_severe, u ''serious'')"
  by (simp add: canned_def getitem_def FALLBACK_RESPONSES_def u_def)

lemma canned_serious_default:
  "canned (u ''serious'') (u ''default'') = Inr (serious_default, u ''serious'')"
  by (simp add: canned_def getitem_def FALLBACK_RESPONSES_def u_def)

lemmas canned_simps =
  canned_mild_headache canned_mild_cold canned_mild_fever canned_mild_default
  canned_serious_chest canned_serious_breathing canned_serious_severe canned_serious_default

lemma mild_neq_serious: "u ''mild'' \<noteq> u ''serious''"
  by (simp add: u_def)

text \<open>No lookup of the classifier raises: it returns one of eight pairs.\<close>

lemma get_fallback_response_cases:
  "get_fallback_response lower s \<in> set
     [Inr (mild_headache, u ''mild''), Inr (mild_cold, u ''mild''),
      Inr (mild_fever, u ''mild''), Inr (mild_default, u ''mild''),
      Inr (serious_chest, u ''serious''), Inr (serious_breathing, u ''serious''),
      Inr (serious_severe, u ''serious''), Inr (serious_default, u ''serious'')]"
  unfolding get_fallback_response_def Let_def canned_simps by simp

lemma get_fallback_response_returns:
  "\<exists>text sev. get_fallback_response lower s = Inr (text, sev)
      \<and> (sev = u ''mild'' \<or> sev = u ''serious'')"
  using get_fallback_response_cases [of lower s] by auto

lemma answer_returns:
  "\<exists>text sev. answer lower e s = Inr (text, sev) \<and> (sev = u ''mild'' \<or> sev = u ''serious'')"
  using get_fallback_response_returns [of lower s]
  by (auto simp: answer_def split: option.splits sum.splits)

lemma diagnose_symptoms_answer:
  assumes "answer lower e (symptoms request) = Inr (text, sev)"
  shows "diagnose_symptoms lower e file request =
           (Inr \<lparr>advice = text @ disclaimer, severity = sev, timestamp = clock_response e\<rparr>,
            save_conversation (disk e) (clock_save e) file (symptoms request)
              (text @ disclaimer) sev)"
  using assms by (simp add: diagnose_symptoms_def Let_def)

text \<open>On ASCII text, lowering twice is lowering once.\<close>

lemma ascii_lower_idem: "ascii_lower (ascii_lower s) = ascii_lower s"
  by (induction s) (auto simp: ascii_lower_def)

lemma disclaimer_begins: "prefix ([10, 10, 0x26A0, 0xFE0F] @ u '' Disclaimer:'') disclaimer"
  by (simp add: disclaimer_def u_def)

lemma answer_cases:
  "(\<exists>create reply. client e = Some create \<and> call_model create s = Inr reply
       \<and> answer lower e s = Inr (reply,
             if list_ex (\<lambda>keyword. sublist keyword (lower reply)) model_keywords
             then u ''serious'' else u ''mild''))
   \<or> ((client e = None \<or> (\<exists>create err. client e = Some create \<and> call_model create s = Inl err))
       \<and> answer lower e s = get_fallback_response lower s)"
proof (cases "client e")
  case None
  then show ?thesis by (simp add: answer_def)
next
  case (Some create)
  show ?thesis
  proof (cases "call_model create s")
    case (Inl err)
    with Some show ?thesis by (simp add: answer_def)
  next
    case (Inr reply)
    with Some show ?thesis by (simp add: answer_def)
  qed
qed

lemma serious_chest_neq_breathing: "serious_chest \<noteq> serious_breathing"
  by (simp add: serious_chest_def serious_breathing_def u_def)

lemma mild_fever_distinct:
  "mild_fever \<noteq> mild_headache" "mild_fever \<noteq> mild_cold" "mild_fever \<noteq> mild_default"
  by (simp_all add: mild_fever_def mild_headache_def mild_cold_def mild_default_def u_def)



section \<open>Evaluations at concrete inputs\<close>

lemma fever_example:
  "get_fallback_response ascii_lower (u ''I have a Fever'') = Inr (serious_default, u ''serious'')"
  unfolding get_fallback_response_def Let_def serious_keywords_def mild_indicators_def canned_simps
  by (simp add: u_def ascii_lower_def sublist_code(3))

lemma save_conversation_fresh:
  "save_conversation Written now Absent a b c =
     Stored (JObj [(u ''conversations'', JArr [conversation a b c now])])"
  by (simp add: save_conversation_def save_conversation_try_def load_conversations_def
      default_document_def append_conversation_def getitem_def)

lemma cough_example:
  "get_fallback_response ascii_lower (u ''slight Cough'') = Inr (mild_cold, u ''mild'')"
  unfolding get_fallback_response_def Let_def serious_keywords_def mild_indicators_def canned_simps
  by (simp add: u_def ascii_lower_def sublist_code(3))

lemma bleeding_example:
  "get_fallback_response ascii_lower (u ''Severe bleeding'') = Inr (serious_severe, u ''serious'')"
  unfolding get_fallback_response_def Let_def serious_keywords_def mild_indicators_def canned_simps
  by (simp add: u_def ascii_lower_def sublist_code(3))

lemma rest_example:
  "call_model (\<lambda>message. Inr [Some (u '' Rest and drink water. '')]) s
     = Inr (u ''Rest and drink water.'')"
  by (simp add: call_model_def first_content_def strip_def isspace_def u_def)

lemma rest_example_mild:
  "\<not> list_ex (\<lambda>keyword. sublist keyword (ascii_lower (u ''Rest and drink water.''))) model_keywords"
  by (simp add: model_keywords_def u_def ascii_lower_def sublist_code(3))

lemma chest_example_lower:
  "ascii_lower (u ''Mild CHEST pain, short of breath'') = u ''mild chest pain, short of breath''"
  by (simp add: ascii_lower_def u_def)

lemma fever_example_lower: "ascii_lower (u ''I have a Fever'') = u ''i have a fever''"
  by (simp add: ascii_lower_def u_def)

lemma mild_fever_example:
  "get_fallback_response ascii_lower (u ''a mild fever'') = Inr (mild_fever, u ''mild'')"
  unfolding get_fallback_response_def Let_def serious_keywords_def mild_indicators_def canned_simps
  by (simp add: u_def ascii_lower_def sublist_code(3))

lemma answer_fever_example:
  "answer ascii_lower
      \<lparr>client = None, clock_save = u ''2024-05-01T10:00:00.000001'',
       clock_response = u ''2024-05-01T10:00:00.000002'', disk = d\<rparr>
      (u ''I have a Fever'') = Inr (serious_default, u ''serious'')"
  by (simp add: answer_def fever_example)

section \<open>Claims\<close>

text \<open>
  C1. The classification is always one of the two strings "mild" and "serious":
  \<open>get_fallback_response\<close> returns, for every symptoms string, a pair whose severity
  is one of the two, and the severity of every successful \<open>POST /diagnose\<close> response
  is one of the two. The two strings differ.
\<close>

theorem severity_mild_or_serious:
  "(\<exists>text sev. get_fallback_response lower s = Inr (text, sev)
       \<and> sev \<in> {u ''mild'', u ''serious''})
   \<and> (\<forall>r file'. diagnose_symptoms lower e file request = (Inr r, file')
          \<longrightarrow> severity r \<in> {u ''mild'', u ''serious''})
   \<and> u ''mild'' \<noteq> u ''serious''"
proof (intro conjI allI impI)
  show "\<exists>text sev. get_fallback_response lower s = Inr (text, sev)
          \<and> sev \<in> {u ''mild'', u ''serious''}"
    using get_fallback_response_returns [of lower s] by auto
next
  fix r file'
  assume d: "diagnose_symptoms lower e file request = (Inr r, file')"
  obtain reply sev where a: "answer lower e (symptoms request) = Inr (reply, sev)"
    and sev: "sev = u ''mild'' \<or> sev = u ''serious''"
    using answer_returns by blast
  from d diagnose_symptoms_answer [OF a, of "file"] have "severity r = sev" by auto
  with sev show "severity r \<in> {u ''mild'', u ''serious''}" by auto
next
  show "u ''mild'' \<noteq> u ''serious''" by (rule mild_neq_serious)
qed

theorem severity_mild_or_serious_witness:
  "diagnose_symptoms ascii_lower
      \<lparr>client = None, clock_save = u ''2024-05-01T10:00:00.000001'',
       clock_response = u ''2024-05-01T10:00:00.000002'', disk = Written\<rparr>
      Absent \<lparr>symptoms = u ''I have a Fever''\<rparr>
    = (Inr \<lparr>advice = serious_default @ disclaimer, severity = u ''serious'',
            timestamp = u ''2024-05-01T10:00:00.000002''\<rparr>,
       Stored (JObj [(u ''conversations'',
          JArr [conversation (u ''I have a Fever'') (serious_default @ disclaimer) (u ''serious'')
                  (u ''2024-05-01T10:00:00.000001'')])]))
   \<and> severity \<lparr>advice = serious_default @ disclaimer, severity = u ''serious'',
            timestamp = u ''2024-05-01T10:00:00.000002''\<rparr> \<in> {u ''mild'', u ''serious''}"
proof -
  have a: "answer ascii_lower
      \<lparr>client = None, clock_save = u ''2024-05-01T10:00:00.000001'',
       clock_response = u ''2024-05-01T10:00:00.000002'', disk = Written\<rparr>
      (symptoms \<lparr>symptoms = u ''I have a Fever''\<rparr>) = Inr (serious_default, u ''serious'')"
    by (simp add: answer_def fever_example)
  have d: "diagnose_symptoms ascii_lower
      \<lparr>client = None, clock_save = u ''2024-05-01T10:00:00.000001'',
       clock_response = u ''2024-05-01T10:00:00.000002'', disk = Written\<rparr>
      Absent \<lparr>symptoms = u ''I have a Fever''\<rparr>
    = (Inr \<lparr>advice = serious_default @ disclaimer, severity = u ''serious'',
            timestamp = u ''2024-05-01T10:00:00.000002''\<rparr>,
       Stored (JObj [(u ''conversations'',
          JArr [conversation (u ''I have a Fever'') (serious_default @ disclaimer) (u ''serious'')
                  (u ''2024-05-01T10:00:00.000001'')])]))"
    unfolding diagnose_symptoms_answer [OF a] by (simp add: save_conversation_fresh)
  from severity_mild_or_serious [THEN conjunct2, THEN conjunct1, rule_format, OF d] d
  show ?thesis by simp
qed

text \<open>
  C2. Every \<open>POST /diagnose\<close> request succeeds, and its advice is the response text
  followed by the fixed disclaimer, on both paths: the text is what the model call
  returned, or, when the client is unconfigured or the call raised, the text of the
  fallback classifier. The disclaimer begins with two newlines, the warning sign and
  " Disclaimer:".
\<close>

theorem advice_ends_with_disclaimer:
  "\<exists>reply sev file'.
      diagnose_symptoms lower e file request =
        (Inr \<lparr>advice = reply @ disclaimer, severity = sev, timestamp = clock_response e\<rparr>, file')
    \<and> ((\<exists>create. client e = Some create \<and> call_model create (symptoms request) = Inr reply)
       \<or> ((client e = None
            \<or> (\<exists>create err. client e = Some create
                   \<and> call_model create (symptoms request) = Inl err))
          \<and> get_fallback_response lower (symptoms request) = Inr (reply, sev)))
    \<and> prefix ([10, 10, 0x26A0, 0xFE0F] @ u '' Disclaimer:'') disclaimer"
proof -
  obtain reply sev where a: "answer lower e (symptoms request) = Inr (reply, sev)"
    using answer_returns by blast
  note d = diagnose_symptoms_answer [OF a, of "file"]
  from answer_cases [of e "symptoms request" lower] a
  have "(\<exists>create. client e = Some create \<and> call_model create (symptoms request) = Inr reply)
       \<or> ((client e = None
            \<or> (\<exists>create err. client e = Some create
                   \<and> call_model create (symptoms request) = Inl err))
          \<and> get_fallback_response lower (symptoms request) = Inr (reply, sev))"
    by auto
  with d disclaimer_begins show ?thesis by blast
qed

text \<open>
  C3. When the client is unconfigured or the model call raises, the advice (before the
  disclaimer) and the severity of \<open>POST /diagnose\<close> are those of
  \<open>get_fallback_response\<close> on the request's symptoms. In the one remaining case, a
  model call that returns, the advice is the model's text and the severity comes from
  the keywords of that text: the fallback classifier is not used.
\<close>

theorem fallback_when_client_absent_or_raises:
  "((client e = None
      \<or> (\<exists>create err. client e = Some create \<and> call_model create (symptoms request) = Inl err))
     \<longrightarrow> (\<exists>reply sev file'.
            get_fallback_response lower (symptoms request) = Inr (reply, sev)
          \<and> diagnose_symptoms lower e file request =
              (Inr \<lparr>advice = reply @ disclaimer, severity = sev,
                    timestamp = clock_response e\<rparr>, file')))
   \<and> (\<forall>create reply. client e = Some create \<and> call_model create (symptoms request) = Inr reply
     \<longrightarrow> (\<exists>file'.
            diagnose_symptoms lower e file request =
              (Inr \<lparr>advice = reply @ disclaimer,
                    severity = (if list_ex (\<lambda>keyword. sublist keyword (lower reply)) model_keywords
                                then u ''serious'' else u ''mild''),
                    timestamp = clock_response e\<rparr>, file')))"
proof (intro conjI allI impI)
  assume h: "client e = None
      \<or> (\<exists>create err. client e = Some create \<and> call_model create (symptoms request) = Inl err)"
  then have a: "answer lower e (symptoms request) = get_fallback_response lower (symptoms request)"
    by (auto simp: answer_def)
  obtain reply sev where g: "get_fallback_response lower (symptoms request) = Inr (reply, sev)"
    using get_fallback_response_returns by blast
  from diagnose_symptoms_answer [of lower e request reply sev "file"] a g
  show "\<exists>reply sev file'.
            get_fallback_response lower (symptoms request) = Inr (reply, sev)
          \<and> diagnose_symptoms lower e file request =
              (Inr \<lparr>advice = reply @ disclaimer, severity = sev,
                    timestamp = clock_response e\<rparr>, file')"
    by auto
next
  fix create reply
  assume h: "client e = Some create \<and> call_model create (symptoms request) = Inr reply"
  then have a: "answer lower e (symptoms request) = Inr (reply,
       if list_ex (\<lambda>keyword. sublist keyword (lower reply)) model_keywords
       then u ''serious'' else u ''mild'')"
    by (simp add: answer_def)
  from diagnose_symptoms_answer [OF a, of "file"]
  show "\<exists>file'. diagnose_symptoms lower e file request =
              (Inr \<lparr>advice = reply @ disclaimer,
                    severity = (if list_ex (\<lambda>keyword. sublist keyword (lower reply)) model_keywords
                                then u ''serious'' else u ''mild''),
                    timestamp = clock_response e\<rparr>, file')"
    by blast
qed

theorem fallback_when_client_absent_or_raises_witness:
  "fst (diagnose_symptoms ascii_lower
      \<lparr>client = None, clock_save = u ''2024-05-01T10:00:00.000001'',
       clock_response = u ''2024-05-01T10:00:00.000002'', disk = Written\<rparr>
      Absent \<lparr>symptoms = u ''slight Cough''\<rparr>)
    = Inr \<lparr>advice = mild_cold @ disclaimer, severity = u ''mild'',
           timestamp = u ''2024-05-01T10:00:00.000002''\<rparr>
   \<and> fst (diagnose_symptoms ascii_lower
      \<lparr>client = Some (\<lambda>message. Inl APIError), clock_save = u ''2024-05-01T10:00:00.000001'',
       clock_response = u ''2024-05-01T10:00:00.000002'', disk = Written\<rparr>
      Absent \<lparr>symptoms = u ''Severe bleeding''\<rparr>)
    = Inr \<lparr>advice = serious_severe @ disclaimer, severity = u ''serious'',
           timestamp = u ''2024-05-01T10:00:00.000002''\<rparr>
   \<and> fst (diagnose_symptoms ascii_lower
      \<lparr>client = Some (\<lambda>message. Inr [Some (u '' Rest and drink water. '')]),
       clock_save = u ''2024-05-01T10:00:00.000001'',
       clock_response = u ''2024-05-01T10:00:00.000002'', disk = Written\<rparr>
      Absent \<lparr>symptoms = u ''Severe bleeding''\<rparr>)
    = Inr \<lparr>advice = u ''Rest and drink water.'' @ disclaimer, severity = u ''mild'',
           timestamp = u ''2024-05-01T10:00:00.000002''\<rparr>"
proof (intro conjI)
  let ?e = "\<lparr>client = None, clock_save = u ''2024-05-01T10:00:00.000001'',
       clock_response = u ''2024-05-01T10:00:00.000002'', disk = Written\<rparr>"
  have "client ?e = None" by simp
  with fallback_when_client_absent_or_raises
         [of ?e "\<lparr>symptoms = u ''slight Cough''\<rparr>" ascii_lower Absent]
  show "fst (diagnose_symptoms ascii_lower ?e Absent \<lparr>symptoms = u ''slight Cough''\<rparr>)
    = Inr \<lparr>advice = mild_cold @ disclaimer, severity = u ''mild'',
           timestamp = u ''2024-05-01T10:00:00.000002''\<rparr>"
    by (auto simp: cough_example)
next
  let ?e = "\<lparr>client = Some (\<lambda>message. Inl APIError),
       clock_save = u ''2024-05-01T10:00:00.000001'',
       clock_response = u ''2024-05-01T10:00:00.000002'', disk = Written\<rparr>"
  have "\<exists>create err. client ?e = Some create
          \<and> call_model create (symptoms \<lparr>symptoms = u ''Severe bleeding''\<rparr>) = Inl err"
    by (simp add: call_model_def)
  with fallback_when_client_absent_or_raises
         [of ?e "\<lparr>symptoms = u ''Severe bleeding''\<rparr>" ascii_lower Absent]
  show "fst (diagnose_symptoms ascii_lower ?e Absent \<lparr>symptoms = u ''Severe bleeding''\<rparr>)
    = Inr \<lparr>advice = serious_severe @ disclaimer, severity = u ''serious'',
           timestamp = u ''2024-05-01T10:00:00.000002''\<rparr>"
    by (auto simp: bleeding_example)
next
  let ?e = "\<lparr>client = Some (\<lambda>message. Inr [Some (u '' Rest and drink water. '')]),
       clock_save = u ''2024-05-01T10:00:00.000001'',
       clock_response = u ''2024-05-01T10:00:00.000002'', disk = Written\<rparr>"
  have "client ?e = Some (\<lambda>message. Inr [Some (u '' Rest and drink water. '')])
      \<and> call_model (\<lambda>message. Inr [Some (u '' Rest and drink water. '')])
            (symptoms \<lparr>symptoms = u ''Severe bleeding''\<rparr>) = Inr (u ''Rest and drink water.'')"
    by (simp add: rest_example)
  with fallback_when_client_absent_or_raises
         [of ?e "\<lparr>symptoms = u ''Severe bleeding''\<rparr>" ascii_lower Absent,
          THEN conjunct2, rule_format]
  have "\<exists>file'. diagnose_symptoms ascii_lower ?e Absent \<lparr>symptoms = u ''Severe bleeding''\<rparr> =
      (Inr \<lparr>advice = u ''Rest and drink water.'' @ disclaimer,
            severity = (if list_ex (\<lambda>keyword. sublist keyword
                             (ascii_lower (u ''Rest and drink water.''))) model_keywords
                        then u ''serious'' else u ''mild''),
            timestamp = clock_response ?e\<rparr>, file')"
    by blast
  then show "fst (diagnose_symptoms ascii_lower ?e Absent \<lparr>symptoms = u ''Severe bleeding''\<rparr>)
    = Inr \<lparr>advice = u ''Rest and drink water.'' @ disclaimer, severity = u ''mild'',
           timestamp = u ''2024-05-01T10:00:00.000002''\<rparr>"
    using rest_example_mild by auto
qed

text \<open>
  C4. For every symptoms string \<open>get_fallback_response\<close> returns a pair of a text and
  a severity, where the text is one of the eight canned strings and is the entry
  \<open>FALLBACK_RESPONSES[severity][key]\<close> for some key of that severity's table.
\<close>

theorem fallback_text_from_table:
  "\<exists>text sev table key.
      get_fallback_response lower s = Inr (text, sev)
    \<and> text \<in> set [mild_headache, mild_cold, mild_fever, mild_default,
                  serious_chest, serious_breathing, serious_severe, serious_default]
    \<and> getitem FALLBACK_RESPONSES sev = Inr table
    \<and> getitem table key = Inr text"
proof -
  have look: "canned sev key = Inr (t, sev') \<Longrightarrow>
      \<exists>table. getitem FALLBACK_RESPONSES sev = Inr table \<and> getitem table key = Inr t \<and> sev' = sev"
    for sev key t sev'
    by (auto simp: canned_def split: sum.splits)
  from get_fallback_response_cases [of lower s]
  consider
      "get_fallback_response lower s = canned (u ''mild'') (u ''headache'')"
    | "get_fallback_response lower s = canned (u ''mild'') (u ''cold'')"
    | "get_fallback_response lower s = canned (u ''mild'') (u ''fever'')"
    | "get_fallback_response lower s = canned (u ''mild'') (u ''default'')"
    | "get_fallback_response lower s = canned (u ''serious'') (u ''chest'')"
    | "get_fallback_response lower s = canned (u ''serious'') (u ''breathing'')"
    | "get_fallback_response lower s = canned (u ''serious'') (u ''severe'')"
    | "get_fallback_response lower s = canned (u ''serious'') (u ''default'')"
    unfolding canned_simps by auto
  then show ?thesis
  proof cases
    case 1 with look [OF canned_mild_headache] canned_mild_headache show ?thesis by auto
  next
    case 2 with look [OF canned_mild_cold] canned_mild_cold show ?thesis by auto
  next
    case 3 with look [OF canned_mild_fever] canned_mild_fever show ?thesis by auto
  next
    case 4 with look [OF canned_mild_default] canned_mild_default show ?thesis by auto
  next
    case 5 with look [OF canned_serious_chest] canned_serious_chest show ?thesis by auto
  next
    case 6 with look [OF canned_serious_breathing] canned_serious_breathing show ?thesis by auto
  next
    case 7 with look [OF canned_serious_severe] canned_serious_severe show ?thesis by auto
  next
    case 8 with look [OF canned_serious_default] canned_serious_default show ?thesis by auto
  qed
qed

text \<open>
  C6. The fallback classifier is case-insensitive: its result on \<open>s\<close> is its result on
  the lowercased \<open>s\<close>, and two inputs with the same lowercased text have the same
  result. The first part uses that lowering an already lowercased string changes
  nothing, a property of \<open>str.lower\<close>, which \<open>ascii_lower_idem\<close> shows for ASCII text.
\<close>

theorem fallback_case_insensitive:
  "(lower (lower s) = lower s
      \<longrightarrow> get_fallback_response lower (lower s) = get_fallback_response lower s)
   \<and> (lower s = lower t
      \<longrightarrow> get_fallback_response lower s = get_fallback_response lower t)"
  by (simp add: get_fallback_response_def)

theorem fallback_case_insensitive_witness:
  "ascii_lower (ascii_lower (u ''My HEAD hurts'')) = ascii_lower (u ''My HEAD hurts'')
   \<and> ascii_lower (u ''My HEAD hurts'') = u ''my head hurts''
   \<and> get_fallback_response ascii_lower (u ''my head hurts'')
       = get_fallback_response ascii_lower (u ''My HEAD hurts'')
   \<and> get_fallback_response ascii_lower (u ''My HEAD hurts'') = Inr (mild_headache, u ''mild'')"
proof -
  have l: "ascii_lower (u ''My HEAD hurts'') = u ''my head hurts''"
    by (simp add: ascii_lower_def u_def)
  have i: "ascii_lower (ascii_lower (u ''My HEAD hurts'')) = ascii_lower (u ''My HEAD hurts'')"
    by (rule ascii_lower_idem)
  have g: "get_fallback_response ascii_lower (u ''My HEAD hurts'') = Inr (mild_headache, u ''mild'')"
    unfolding get_fallback_response_def Let_def serious_keywords_def mild_indicators_def
      canned_simps l
    by (simp add: u_def sublist_code(3))
  from fallback_case_insensitive [of ascii_lower "u ''My HEAD hurts''", THEN conjunct1] i
  have "get_fallback_response ascii_lower (ascii_lower (u ''My HEAD hurts''))
       = get_fallback_response ascii_lower (u ''My HEAD hurts'')"
    by blast
  with l i g show ?thesis by simp
qed

text \<open>
  C7. \<open>GET /history\<close> returns the stored document and leaves the file as it is; when
  the file does not exist, or cannot be read or parsed, it returns the default
  document \<open>{"conversations": []}\<close>. It never fails.
\<close>

theorem history_returns_log_unchanged:
  "get_conversation_history (Stored data) = (Inr data, Stored data)
   \<and> get_conversation_history Absent = (Inr (JObj [(u ''conversations'', JArr [])]), Absent)
   \<and> get_conversation_history Unreadable
       = (Inr (JObj [(u ''conversations'', JArr [])]), Unreadable)
   \<and> snd (get_conversation_history file) = file
   \<and> (\<exists>document. fst (get_conversation_history file) = Inr document)"
  by (simp add: get_conversation_history_def load_conversations_def default_document_def)

text \<open>
  C8. Serious keywords come first: when the lowercased symptoms contain any serious
  keyword, the severity is "serious", whatever mild indicators they also contain; and
  when they contain "chest" the chest response is returned, whether or not "breath" or
  "breathing" is there too. The chest response is not the breathing response.
\<close>

theorem serious_keywords_first:
  "(list_ex (\<lambda>keyword. sublist keyword (lower s)) serious_keywords
      \<longrightarrow> (\<exists>text. get_fallback_response lower s = Inr (text, u ''serious'')))
   \<and> (sublist (u ''chest'') (lower s)
      \<longrightarrow> get_fallback_response lower s = Inr (serious_chest, u ''serious''))
   \<and> serious_chest \<noteq> serious_breathing"
proof (intro conjI impI)
  assume "list_ex (\<lambda>keyword. sublist keyword (lower s)) serious_keywords"
  then show "\<exists>text. get_fallback_response lower s = Inr (text, u ''serious'')"
    by (simp add: get_fallback_response_def Let_def canned_simps)
next
  assume h: "sublist (u ''chest'') (lower s)"
  then have "list_ex (\<lambda>keyword. sublist keyword (lower s)) serious_keywords"
    by (simp add: serious_keywords_def)
  with h show "get_fallback_response lower s = Inr (serious_chest, u ''serious'')"
    by (simp add: get_fallback_response_def Let_def canned_simps)
next
  show "serious_chest \<noteq> serious_breathing" by (rule serious_chest_neq_breathing)
qed

theorem serious_keywords_first_witness:
  "list_ex (\<lambda>keyword. sublist keyword (ascii_lower (u ''Mild CHEST pain, short of breath'')))
      serious_keywords
   \<and> list_ex (\<lambda>indicator. sublist indicator (ascii_lower (u ''Mild CHEST pain, short of breath'')))
      mild_indicators
   \<and> sublist (u ''chest'') (ascii_lower (u ''Mild CHEST pain, short of breath''))
   \<and> sublist (u ''breath'') (ascii_lower (u ''Mild CHEST pain, short of breath''))
   \<and> get_fallback_response ascii_lower (u ''Mild CHEST pain, short of breath'')
       = Inr (serious_chest, u ''serious'')"
proof -
  have c: "sublist (u ''chest'') (ascii_lower (u ''Mild CHEST pain, short of breath''))"
    unfolding chest_example_lower by (simp add: u_def sublist_code(3))
  have b: "sublist (u ''breath'') (ascii_lower (u ''Mild CHEST pain, short of breath''))"
    unfolding chest_example_lower by (simp add: u_def sublist_code(3))
  have m: "sublist (u ''mild'') (ascii_lower (u ''Mild CHEST pain, short of breath''))"
    unfolding chest_example_lower by (simp add: u_def sublist_code(3))
  from c have k: "list_ex (\<lambda>keyword. sublist keyword
      (ascii_lower (u ''Mild CHEST pain, short of breath''))) serious_keywords"
    by (simp add: serious_keywords_def)
  from m have i: "list_ex (\<lambda>indicator. sublist indicator
      (ascii_lower (u ''Mild CHEST pain, short of breath''))) mild_indicators"
    by (simp add: mild_indicators_def)
  from serious_keywords_first [of ascii_lower "u ''Mild CHEST pain, short of breath''"] c
  have "get_fallback_response ascii_lower (u ''Mild CHEST pain, short of breath'')
       = Inr (serious_chest, u ''serious'')"
    by blast
  with c b k i show ?thesis by simp
qed

text \<open>
  C9. When the lowercased symptoms contain "fever" and none of the serious keywords,
  none of "headache", "head", "cold", "cough", "runny nose" and none of the mild
  indicators, the result is the serious default response with severity "serious".
  The mild fever response is returned only when both "fever" and "mild" appear.
\<close>

theorem fever_alone_is_serious:
  "(sublist (u ''fever'') (lower s)
      \<and> \<not> list_ex (\<lambda>keyword. sublist keyword (lower s)) serious_keywords
      \<and> \<not> list_ex (\<lambda>word. sublist word (lower s))
             [u ''headache'', u ''head'', u ''cold'', u ''cough'', u ''runny nose'']
      \<and> \<not> list_ex (\<lambda>indicator. sublist indicator (lower s)) mild_indicators
     \<longrightarrow> get_fallback_response lower s = Inr (serious_default, u ''serious''))
   \<and> (get_fallback_response lower s = Inr (mild_fever, u ''mild'')
     \<longrightarrow> sublist (u ''fever'') (lower s) \<and> sublist (u ''mild'') (lower s))"
proof (intro conjI impI)
  assume h: "sublist (u ''fever'') (lower s)
      \<and> \<not> list_ex (\<lambda>keyword. sublist keyword (lower s)) serious_keywords
      \<and> \<not> list_ex (\<lambda>word. sublist word (lower s))
             [u ''headache'', u ''head'', u ''cold'', u ''cough'', u ''runny nose'']
      \<and> \<not> list_ex (\<lambda>indicator. sublist indicator (lower s)) mild_indicators"
  then have "\<not> sublist (u ''mild'') (lower s)"
    by (simp add: mild_indicators_def)
  with h show "get_fallback_response lower s = Inr (serious_default, u ''serious'')"
    by (simp add: get_fallback_response_def Let_def canned_simps)
next
  assume g: "get_fallback_response lower s = Inr (mild_fever, u ''mild'')"
  show "sublist (u ''fever'') (lower s)"
  proof (rule ccontr)
    assume "\<not> sublist (u ''fever'') (lower s)"
    with g show False
      by (simp add: get_fallback_response_def Let_def canned_simps mild_fever_distinct mild_fever_distinct [symmetric]
            mild_neq_serious mild_neq_serious [symmetric] split: if_splits)
  qed
  show "sublist (u ''mild'') (lower s)"
  proof (rule ccontr)
    assume "\<not> sublist (u ''mild'') (lower s)"
    with g show False
      by (simp add: get_fallback_response_def Let_def canned_simps mild_fever_distinct mild_fever_distinct [symmetric]
            mild_neq_serious mild_neq_serious [symmetric] split: if_splits)
  qed
qed

theorem fever_alone_is_serious_witness:
  "sublist (u ''fever'') (ascii_lower (u ''I have a Fever''))
   \<and> \<not> list_ex (\<lambda>keyword. sublist keyword (ascii_lower (u ''I have a Fever''))) serious_keywords
   \<and> \<not> list_ex (\<lambda>word. sublist word (ascii_lower (u ''I have a Fever'')))
          [u ''headache'', u ''head'', u ''cold'', u ''cough'', u ''runny nose'']
   \<and> \<not> list_ex (\<lambda>indicator. sublist indicator (ascii_lower (u ''I have a Fever'')))
          mild_indicators
   \<and> get_fallback_response ascii_lower (u ''I have a Fever'') = Inr (serious_default, u ''serious'')
   \<and> get_fallback_response ascii_lower (u ''a mild fever'') = Inr (mild_fever, u ''mild'')
   \<and> sublist (u ''mild'') (ascii_lower (u ''a mild fever''))"
proof -
  have h: "sublist (u ''fever'') (ascii_lower (u ''I have a Fever''))
      \<and> \<not> list_ex (\<lambda>keyword. sublist keyword (ascii_lower (u ''I have a Fever'')))
             serious_keywords
      \<and> \<not> list_ex (\<lambda>word. sublist word (ascii_lower (u ''I have a Fever'')))
             [u ''headache'', u ''head'', u ''cold'', u ''cough'', u ''runny nose'']
      \<and> \<not> list_ex (\<lambda>indicator. sublist indicator (ascii_lower (u ''I have a Fever'')))
             mild_indicators"
    unfolding fever_example_lower serious_keywords_def mild_indicators_def
    by (simp add: u_def sublist_code(3))
  with fever_alone_is_serious [of ascii_lower "u ''I have a Fever''", THEN conjunct1]
  have 1: "get_fallback_response ascii_lower (u ''I have a Fever'')
      = Inr (serious_default, u ''serious'')"
    by blast
  from fever_alone_is_serious [of ascii_lower "u ''a mild fever''", THEN conjunct2]
    mild_fever_example
  have 2: "sublist (u ''mild'') (ascii_lower (u ''a mild fever''))"
    by blast
  from h 1 2 mild_fever_example show ?thesis by blast
qed

text \<open>
  C10. A failure to persist is swallowed: whenever the body of \<open>save_conversation\<close>
  raises, \<open>POST /diagnose\<close> still returns its normal response; and that response is
  the same whatever the state of the file and however the write goes, so it is never
  an error.
\<close>

theorem persistence_failure_swallowed:
  "\<exists>reply sev.
      answer lower e (symptoms request) = Inr (reply, sev)
    \<and> (\<forall>err file'.
          save_conversation_try (disk e) (clock_save e) file (symptoms request)
             (reply @ disclaimer) sev = (Some err, file')
          \<longrightarrow> diagnose_symptoms lower e file request =
                (Inr \<lparr>advice = reply @ disclaimer, severity = sev,
                      timestamp = clock_response e\<rparr>, file'))
    \<and> (\<forall>d file2.
          fst (diagnose_symptoms lower (e\<lparr>disk := d\<rparr>) file2 request) =
            Inr \<lparr>advice = reply @ disclaimer, severity = sev, timestamp = clock_response e\<rparr>)"
proof -
  obtain reply sev where a: "answer lower e (symptoms request) = Inr (reply, sev)"
    using answer_returns by blast
  have a': "answer lower (e\<lparr>disk := d\<rparr>) (symptoms request) = Inr (reply, sev)" for d
    using a by (simp add: answer_def)
  have 1: "\<forall>err file'.
          save_conversation_try (disk e) (clock_save e) file (symptoms request)
             (reply @ disclaimer) sev = (Some err, file')
          \<longrightarrow> diagnose_symptoms lower e file request =
                (Inr \<lparr>advice = reply @ disclaimer, severity = sev,
                      timestamp = clock_response e\<rparr>, file')"
    by (simp add: diagnose_symptoms_answer [OF a] save_conversation_def)
  have 2: "\<forall>d file2.
          fst (diagnose_symptoms lower (e\<lparr>disk := d\<rparr>) file2 request) =
            Inr \<lparr>advice = reply @ disclaimer, severity = sev, timestamp = clock_response e\<rparr>"
    by (simp add: diagnose_symptoms_answer [OF a'])
  from a 1 2 show ?thesis by blast
qed

theorem persistence_failure_swallowed_witness:
  "save_conversation_try DumpFails (u ''2024-05-01T10:00:00.000001'')
      (Stored (JObj [(u ''conversations'', JArr [])])) (u ''I have a Fever'')
      (serious_default @ disclaimer) (u ''serious'') = (Some OSError, Unreadable)
   \<and> diagnose_symptoms ascii_lower
      \<lparr>client = None, clock_save = u ''2024-05-01T10:00:00.000001'',
       clock_response = u ''2024-05-01T10:00:00.000002'', disk = DumpFails\<rparr>
      (Stored (JObj [(u ''conversations'', JArr [])])) \<lparr>symptoms = u ''I have a Fever''\<rparr>
    = (Inr \<lparr>advice = serious_default @ disclaimer, severity = u ''serious'',
            timestamp = u ''2024-05-01T10:00:00.000002''\<rparr>, Unreadable)"
proof -
  let ?e = "\<lparr>client = None, clock_save = u ''2024-05-01T10:00:00.000001'',
       clock_response = u ''2024-05-01T10:00:00.000002'', disk = DumpFails\<rparr>"
  let ?r = "\<lparr>symptoms = u ''I have a Fever''\<rparr>"
  let ?f = "Stored (JObj [(u ''conversations'', JArr [])])"
  have s: "save_conversation_try DumpFails (u ''2024-05-01T10:00:00.000001'') ?f
      (u ''I have a Fever'') (serious_default @ disclaimer) (u ''serious'')
      = (Some OSError, Unreadable)"
    by (simp add: save_conversation_try_def load_conversations_def append_conversation_def
        getitem_def)
  have a: "answer ascii_lower ?e (symptoms ?r) = Inr (serious_default, u ''serious'')"
    by (simp add: answer_fever_example)
  from persistence_failure_swallowed [of ascii_lower ?e ?r ?f]
  obtain reply sev where
    1: "answer ascii_lower ?e (symptoms ?r) = Inr (reply, sev)" and
    2: "\<forall>err file'.
          save_conversation_try (disk ?e) (clock_save ?e) ?f (symptoms ?r)
             (reply @ disclaimer) sev = (Some err, file')
          \<longrightarrow> diagnose_symptoms ascii_lower ?e ?f ?r =
                (Inr \<lparr>advice = reply @ disclaimer, severity = sev,
                      timestamp = clock_response ?e\<rparr>, file')"
    by blast
  from 1 a have "reply = serious_default" "sev = u ''serious''" by simp_all
  with 2 s have "diagnose_symptoms ascii_lower ?e ?f ?r =
      (Inr \<lparr>advice = serious_default @ disclaimer, severity = u ''serious'',
            timestamp = clock_response ?e\<rparr>, Unreadable)"
    by simp
  with s show ?thesis by simp
qed




end
